theory Spec2Isabelle
  imports Complex_Main
begin

section \<open>svg2dxf: SVG paths to DXF polylines\<close>

text \<open>
  A shallow embedding of \<^verbatim>\<open>svg2dxf.py\<close>. The script reads every SVG file of a folder,
  samples each path at a density of ten points per millimetre, drops samples that
  stay within 0.01 mm of the last kept one on both axes, and writes the chains that
  keep more than one point as LWPOLYLINE entities.

  Number model. A Python \<^verbatim>\<open>float\<close> is modelled as a \<^typ>\<open>real\<close> and float arithmetic
  as exact arithmetic: rounding, infinities and NaN are outside the model. A Python
  \<^verbatim>\<open>int\<close> is an \<^typ>\<open>int\<close>. A point returned by \<^verbatim>\<open>path.point\<close> is a \<^typ>\<open>complex\<close> number,
  as in svgpathtools.

  Strings. A \<^typ>\<open>char\<close> is a code point below 256; the white space of Python beyond
  that range is not representable.

  External code. The builtin \<^verbatim>\<open>float\<close> applied to a string is a parameter \<open>flt\<close> of the
  functions that parse (it answers a value or raises \<^verbatim>\<open>ValueError\<close>); \<open>float_lit\<close> below is
  one such reader, for plain decimal literals, used to evaluate the model on concrete
  documents. What \<^verbatim>\<open>svgpathtools.svg2paths2\<close> returns is the input: the paths and the
  attributes of the \<^verbatim>\<open>svg\<close> element. A path is known by its two queries only.
\<close>

subsection \<open>Data\<close>

datatype error = ValueError | IndexError | ZeroDivisionError

type_synonym 'a result = "error + 'a"

record path =
  path_length :: real
  point :: "real \<Rightarrow> complex"

record svg =
  filename :: string
  paths :: "path list"
  svg_attributes :: "string \<rightharpoonup> string"

type_synonym xy = "real \<times> real"

text \<open>The lines printed on the console, with the values they format.\<close>

datatype report =
  Dimensions string real real
  | PathLine nat real nat
  | Converted string

text \<open>The model space of the DXF document under construction, and the console.\<close>

record run =
  msp :: "xy list list"
  console :: "report list"

subsection \<open>Strings and dictionaries\<close>

definition dict_get :: "(string \<rightharpoonup> string) \<Rightarrow> string \<Rightarrow> string \<Rightarrow> string" where
  "dict_get d k dflt = (case d k of None \<Rightarrow> dflt | Some v \<Rightarrow> v)"

definition endswith :: "string \<Rightarrow> string \<Rightarrow> bool" where
  "endswith s suf = (length suf \<le> length s \<and> drop (length s - length suf) s = suf)"

text \<open>
  \<^verbatim>\<open>str.isspace\<close>, the white space on which \<^verbatim>\<open>str.split()\<close> splits: the blank, the
  controls 9 to 13 and 28 to 31, NEL (133) and the no-break space (160).
\<close>

definition isspace :: "char \<Rightarrow> bool" where
  "isspace c =
     (let n = (of_char c :: nat)
      in n = 32 \<or> (9 \<le> n \<and> n \<le> 13) \<or> (28 \<le> n \<and> n \<le> 31) \<or> n = 133 \<or> n = 160)"

text \<open>
  The white space that \<^verbatim>\<open>float\<close> removes at both ends of a string: as above, without
  the controls 28 to 31.
\<close>

definition float_space :: "char \<Rightarrow> bool" where
  "float_space c =
     (let n = (of_char c :: nat) in n = 32 \<or> (9 \<le> n \<and> n \<le> 13) \<or> n = 133 \<or> n = 160)"

text \<open>\<^verbatim>\<open>s.split()\<close>: the maximal runs of characters that are not white space.\<close>

fun split_loop :: "string \<Rightarrow> string \<Rightarrow> string list" where
  "split_loop cur [] = (if cur = [] then [] else [cur])"
| "split_loop cur (c # cs) =
     (if isspace c then (if cur = [] then split_loop [] cs else cur # split_loop [] cs)
      else split_loop (cur @ [c]) cs)"

definition split_str :: "string \<Rightarrow> string list" where
  "split_str s = split_loop [] s"

subsection \<open>A reader of decimal literals\<close>

text \<open>
  \<open>float_lit\<close> reads what \<^verbatim>\<open>float\<close> reads as a finite number: white space, an optional
  sign, digits with an optional point, an optional exponent; a single underscore may
  stand between two digits. The words \<^verbatim>\<open>inf\<close>, \<^verbatim>\<open>infinity\<close> and \<^verbatim>\<open>nan\<close>, which \<^verbatim>\<open>float\<close>
  reads too, denote no real number and are outside the number model: \<open>float_lit\<close> is
  not used on them.
\<close>

definition isdigit :: "char \<Rightarrow> bool" where
  "isdigit c = (let n = (of_char c :: nat) in 48 \<le> n \<and> n \<le> 57)"

text \<open>A digit part: digits, with single underscores between them.\<close>

fun digitpart :: "string \<Rightarrow> bool" where
  "digitpart [] = False"
| "digitpart [c] = isdigit c"
| "digitpart (c # d # cs) =
     (isdigit c \<and> (if d = CHR ''_'' then digitpart cs else digitpart (d # cs)))"

definition digits_val :: "string \<Rightarrow> nat" where
  "digits_val ds = foldl (\<lambda>a c. 10 * a + (of_char c - 48)) 0 (filter isdigit ds)"

definition strip :: "string \<Rightarrow> string" where
  "strip s = rev (dropWhile float_space (rev (dropWhile float_space s)))"

definition ispoint :: "char \<Rightarrow> bool" where
  "ispoint c = (c = CHR ''.'')"

definition isexp :: "char \<Rightarrow> bool" where
  "isexp c = (c = CHR ''e'' \<or> c = CHR ''E'')"

text \<open>The digits before and after the point; one of the two parts may be empty.\<close>

definition mantissa :: "string \<Rightarrow> real result" where
  "mantissa m =
     (let ip = takeWhile (\<lambda>c. \<not> ispoint c) m; r = dropWhile (\<lambda>c. \<not> ispoint c) m
      in if r = [] then (if digitpart ip then Inr (real (digits_val ip)) else Inl ValueError)
         else if (ip = [] \<or> digitpart ip) \<and> (tl r = [] \<or> digitpart (tl r))
                 \<and> 0 < length ip + length (tl r)
         then Inr (real (digits_val ip)
                   + real (digits_val (tl r)) / 10 ^ length (filter isdigit (tl r)))
         else Inl ValueError)"

text \<open>What follows the letter \<^verbatim>\<open>e\<close>: an optional sign and a digit part.\<close>

definition exponent :: "string \<Rightarrow> int result" where
  "exponent s =
     (case s of
        [] \<Rightarrow> Inl ValueError
      | c # r \<Rightarrow>
          if c = CHR ''-'' then (if digitpart r then Inr (- int (digits_val r)) else Inl ValueError)
          else if c = CHR ''+'' then (if digitpart r then Inr (int (digits_val r)) else Inl ValueError)
          else if digitpart s then Inr (int (digits_val s))
          else Inl ValueError)"

definition unsigned_lit :: "string \<Rightarrow> real result" where
  "unsigned_lit s =
     (let m = takeWhile (\<lambda>c. \<not> isexp c) s; r = dropWhile (\<lambda>c. \<not> isexp c) s
      in case mantissa m of
           Inl e \<Rightarrow> Inl e
         | Inr x \<Rightarrow>
             if r = [] then Inr x
             else (case exponent (tl r) of
                     Inl e \<Rightarrow> Inl e
                   | Inr k \<Rightarrow> Inr (if 0 \<le> k then x * 10 ^ nat k else x / 10 ^ nat (- k))))"

definition float_lit :: "string \<Rightarrow> real result" where
  "float_lit s =
     (case strip s of
        [] \<Rightarrow> Inl ValueError
      | c # r \<Rightarrow>
          if c = CHR ''-'' then map_sum id uminus (unsigned_lit r)
          else if c = CHR ''+'' then unsigned_lit r
          else unsigned_lit (c # r))"

subsection \<open>Document dimensions and the scale factor\<close>

definition POINTS_PER_MM :: int where
  "POINTS_PER_MM = 10"

text \<open>Lines 27 to 35: a value that ends with \<^verbatim>\<open>mm\<close> is read without its last two characters.\<close>

definition mm_to_float :: "(string \<Rightarrow> real result) \<Rightarrow> string \<Rightarrow> real result" where
  "mm_to_float flt v = (if endswith v ''mm'' then flt (take (length v - 2) v) else flt v)"

definition width :: "svg \<Rightarrow> string" where
  "width f = dict_get (svg_attributes f) ''width'' ''21.6mm''"

definition height :: "svg \<Rightarrow> string" where
  "height f = dict_get (svg_attributes f) ''height'' ''37.8mm''"

definition viewbox :: "svg \<Rightarrow> string list" where
  "viewbox f = split_str (dict_get (svg_attributes f) ''viewBox'' ''-40 -30 12 21'')"

definition svg_width_mm :: "(string \<Rightarrow> real result) \<Rightarrow> svg \<Rightarrow> real result" where
  "svg_width_mm flt f = mm_to_float flt (width f)"

definition svg_height_mm :: "(string \<Rightarrow> real result) \<Rightarrow> svg \<Rightarrow> real result" where
  "svg_height_mm flt f = mm_to_float flt (height f)"

text \<open>
  Line 51, \<^verbatim>\<open>svg_width_mm / float(viewbox[2])\<close>: the index, the reading and the division
  can each raise, in this order.
\<close>

definition scale_factor :: "(string \<Rightarrow> real result) \<Rightarrow> real \<Rightarrow> string list \<Rightarrow> real result" where
  "scale_factor flt w vb =
     (if length vb \<le> 2 then Inl IndexError
      else case flt (vb ! 2) of
             Inl e \<Rightarrow> Inl e
           | Inr v \<Rightarrow> if v = 0 then Inl ZeroDivisionError else Inr (w / v))"

subsection \<open>Sampling a path\<close>

text \<open>\<^verbatim>\<open>int(x)\<close> of a float truncates towards zero.\<close>

definition py_int :: "real \<Rightarrow> int" where
  "py_int x = (if 0 \<le> x then \<lfloor>x\<rfloor> else \<lceil>x\<rceil>)"

definition path_length_mm :: "path \<Rightarrow> real \<Rightarrow> real" where
  "path_length_mm p s = path_length p * s"

definition num_samples :: "real \<Rightarrow> int" where
  "num_samples len_mm = max 2 (py_int (len_mm * real_of_int POINTS_PER_MM))"

text \<open>
  Lines 57 to 64. \<open>[0..n]\<close> is \<^verbatim>\<open>range(num_samples + 1)\<close>; the division \<^verbatim>\<open>i / num_samples\<close>
  cannot raise, since \<open>num_samples\<close> is at least 2.
\<close>

definition polyline_points :: "path \<Rightarrow> real \<Rightarrow> xy list" where
  "polyline_points p s =
     (let n = num_samples (path_length_mm p s)
      in map (\<lambda>i. let t = real_of_int i / real_of_int n;
                       pt = point p t;
                       x = Re pt * s;
                       y = Im pt * s
                   in (x, y)) [0..n])"

subsection \<open>Removing duplicates\<close>

text \<open>Lines 69 to 73: the test that appends \<open>p\<close> to the points kept so far.\<close>

definition keeps :: "xy list \<Rightarrow> xy \<Rightarrow> bool" where
  "keeps u p = (u = [] \<or> \<bar>fst p - fst (last u)\<bar> > 0.01 \<or> \<bar>snd p - snd (last u)\<bar> > 0.01)"

fun unique_loop :: "xy list \<Rightarrow> xy list \<Rightarrow> xy list" where
  "unique_loop u [] = u"
| "unique_loop u (p # ps) = unique_loop (if keeps u p then u @ [p] else u) ps"

definition unique_points :: "xy list \<Rightarrow> xy list" where
  "unique_points ps = unique_loop [] ps"

subsection \<open>Emitting polylines\<close>

text \<open>Lines 76 to 80.\<close>

definition add_lwpolyline :: "run \<Rightarrow> nat \<Rightarrow> real \<Rightarrow> xy list \<Rightarrow> run" where
  "add_lwpolyline st path_idx len_mm u =
     (if length u > 1
      then st\<lparr>msp := msp st @ [u], console := console st @ [PathLine path_idx len_mm (length u)]\<rparr>
      else st)"

text \<open>The body of the loop over the paths, lines 47 to 80.\<close>

definition do_path ::
  "(string \<Rightarrow> real result) \<Rightarrow> real \<Rightarrow> string list \<Rightarrow> run \<Rightarrow> nat \<times> path \<Rightarrow> run result" where
  "do_path flt w vb st ip =
     (case scale_factor flt w vb of
        Inl e \<Rightarrow> Inl e
      | Inr s \<Rightarrow>
          Inr (add_lwpolyline st (fst ip) (path_length_mm (snd ip) s)
                 (unique_points (polyline_points (snd ip) s))))"

fun paths_loop ::
  "(string \<Rightarrow> real result) \<Rightarrow> real \<Rightarrow> string list \<Rightarrow> run \<Rightarrow> (nat \<times> path) list \<Rightarrow> run result" where
  "paths_loop flt w vb st [] = Inr st"
| "paths_loop flt w vb st (ip # rest) =
     (case do_path flt w vb st ip of
        Inl e \<Rightarrow> Inl e
      | Inr st' \<Rightarrow> paths_loop flt w vb st' rest)"

definition enumerate :: "'a list \<Rightarrow> (nat \<times> 'a) list" where
  "enumerate xs = zip [0..<length xs] xs"

text \<open>
  One pass of the loop over the files, lines 19 to 83. An exception leaves the loop
  before \<^verbatim>\<open>doc.saveas\<close>: the answer is the error, and no document.
\<close>

definition convert :: "(string \<Rightarrow> real result) \<Rightarrow> svg \<Rightarrow> run result" where
  "convert flt f =
     (case svg_width_mm flt f of
        Inl e \<Rightarrow> Inl e
      | Inr w \<Rightarrow>
          (case svg_height_mm flt f of
             Inl e \<Rightarrow> Inl e
           | Inr h \<Rightarrow>
               (case paths_loop flt w (viewbox f)
                       \<lparr>msp = [], console = [Dimensions (filename f) w h]\<rparr>
                       (enumerate (paths f)) of
                  Inl e \<Rightarrow> Inl e
                | Inr st \<Rightarrow> Inr (st\<lparr>console := console st @ [Converted (filename f)]\<rparr>))))"

subsection \<open>Observations used in the properties\<close>

text \<open>What a run leaves in the document: the polylines, or the error that ended the run.\<close>

definition emitted :: "run result \<Rightarrow> xy list list result" where
  "emitted r = (case r of Inl e \<Rightarrow> Inl e | Inr st \<Rightarrow> Inr (msp st))"

text \<open>A chain in which every point passes the test of lines 69 to 73 against its predecessor.\<close>

fun far_chain :: "xy list \<Rightarrow> bool" where
  "far_chain [] = True"
| "far_chain [p] = True"
| "far_chain (p # q # ps) = (keeps [p] q \<and> far_chain (q # ps))"

subsection \<open>Example paths and documents\<close>

text \<open>A path that stays at the origin until \<open>t = 1\<close>, and a straight one.\<close>

definition jump :: path where
  "jump = \<lparr>path_length = 0, point = (\<lambda>t. if t < 1 then 0 else 1)\<rparr>"

definition ramp :: path where
  "ramp = \<lparr>path_length = 0.25, point = (\<lambda>t. Complex t (2 * t))\<rparr>"

definition doc_mm :: svg where
  "doc_mm = \<lparr>filename = ''a.svg'', paths = [],
             svg_attributes = [''width'' \<mapsto> ''21.6mm'', ''viewBox'' \<mapsto> ''0 0 12 21'']\<rparr>"

definition doc_fields :: svg where
  "doc_fields = \<lparr>filename = ''a.svg'', paths = [jump],
                 svg_attributes = [''viewBox'' \<mapsto> ''x y 12 z'']\<rparr>"

definition doc_empty :: svg where
  "doc_empty = \<lparr>filename = ''b.svg'', paths = [],
                svg_attributes = [''viewBox'' \<mapsto> ''0 0 wide 21'']\<rparr>"

definition doc_bad :: svg where
  "doc_bad = \<lparr>filename = ''c.svg'', paths = [jump],
              svg_attributes = [''width'' \<mapsto> ''12px'', ''height'' \<mapsto> ''tall'',
                                ''viewBox'' \<mapsto> ''0 0 wide 21'']\<rparr>"

definition doc_bad_height :: svg where
  "doc_bad_height = doc_bad\<lparr>svg_attributes := (svg_attributes doc_bad)(''width'' := None)\<rparr>"

definition doc_bad_viewbox :: svg where
  "doc_bad_viewbox = doc_bad\<lparr>svg_attributes := [''viewBox'' \<mapsto> ''0 0 wide 21'']\<rparr>"

definition doc_short :: svg where
  "doc_short = \<lparr>filename = ''d.svg'', paths = [jump],
                svg_attributes = [''height'' \<mapsto> ''5'']\<rparr>"

definition doc_tall :: svg where
  "doc_tall = doc_short\<lparr>svg_attributes := (svg_attributes doc_short)(''height'' := Some ''40mm'')\<rparr>"

section \<open>Properties\<close>

lemmas lit_defs = float_lit_def strip_def isspace_def float_space_def unsigned_lit_def
  mantissa_def exponent_def ispoint_def isexp_def isdigit_def digits_val_def

lemmas doc_defs = width_def height_def viewbox_def dict_get_def svg_width_mm_def
  svg_height_mm_def mm_to_float_def endswith_def split_str_def

lemmas path_defs = polyline_points_def path_length_mm_def num_samples_def py_int_def
  POINTS_PER_MM_def upto_rec1 unique_points_def keeps_def add_lwpolyline_def do_path_def
  scale_factor_def enumerate_def

subsection \<open>Sample count\<close>

lemma py_int_max2: "max 2 (py_int x) = max 2 \<lfloor>x\<rfloor>"
proof (cases "0 \<le> x")
  case True
  then show ?thesis by (simp add: py_int_def)
next
  case False
  then have "x < 0" by simp
  then have "\<lceil>x\<rceil> \<le> 0" and "\<lfloor>x\<rfloor> \<le> 0"
    by (simp_all add: ceiling_le_iff floor_le_iff)
  with False show ?thesis by (simp add: py_int_def)
qed

lemma py_int_mono: "x \<le> y \<Longrightarrow> py_int x \<le> py_int y"
proof -
  assume xy: "x \<le> y"
  show ?thesis
  proof (cases "0 \<le> x")
    case True
    with xy show ?thesis by (simp add: py_int_def floor_mono)
  next
    case False
    show ?thesis
    proof (cases "0 \<le> y")
      case True
      from False have "\<lceil>x\<rceil> \<le> 0" by (simp add: ceiling_le_iff)
      moreover from True have "0 \<le> \<lfloor>y\<rfloor>" by simp
      ultimately have "\<lceil>x\<rceil> \<le> \<lfloor>y\<rfloor>" by (rule order_trans)
      with False True show ?thesis by (simp add: py_int_def)
    next
      case False
      with \<open>\<not> 0 \<le> x\<close> xy show ?thesis by (simp add: py_int_def ceiling_mono)
    qed
  qed
qed

text \<open>
  C1. The sample count of a path is the larger of 2 and the floor of ten times its
  physical length, the physical length being the path's length times the scale
  factor. It is at least 2 for every path, and 2 for a path of length 0.
\<close>

theorem num_samples_floor_min2:
  "num_samples (path_length_mm p s) = max 2 \<lfloor>path_length p * s * 10\<rfloor>
   \<and> 2 \<le> num_samples (path_length_mm p s)
   \<and> num_samples (path_length_mm (p\<lparr>path_length := 0\<rparr>) s) = 2"
  by (simp add: num_samples_def path_length_mm_def POINTS_PER_MM_def py_int_max2)

text \<open>
  C9. The sample count is monotone in the physical length: a longer path never gets
  fewer samples.
\<close>

theorem num_samples_mono: "L1 < L2 \<Longrightarrow> num_samples L1 \<le> num_samples L2"
proof -
  assume "L1 < L2"
  then have "L1 * 10 \<le> L2 * 10" by simp
  then have "py_int (L1 * 10) \<le> py_int (L2 * 10)" by (rule py_int_mono)
  then show ?thesis by (simp add: num_samples_def POINTS_PER_MM_def)
qed

text \<open>Lengths 0.05 mm and 1 mm: 2 and 10 samples.\<close>

theorem num_samples_mono_witness:
  "(0.05::real) < 1 \<and> num_samples 0.05 = 2 \<and> num_samples 1 = 10
   \<and> num_samples 0.05 \<le> num_samples 1"
  using num_samples_mono [of "0.05" 1]
  by (simp add: num_samples_def POINTS_PER_MM_def py_int_def)

subsection \<open>Sampling\<close>

text \<open>
  C2. With \<open>n\<close> the sample count of a path, the sampled points are \<open>n + 1\<close> in number,
  and the \<open>i\<close>-th of them, for \<open>i\<close> from 0 to \<open>n\<close>, is the path's point at \<open>t = i / n\<close>
  with both coordinates multiplied by the scale factor.
\<close>

theorem polyline_points_samples:
  "let n = num_samples (path_length_mm p s); pts = polyline_points p s in
   length pts = nat n + 1 \<and>
   (\<forall>i\<in>{0..n}. pts ! nat i =
       (Re (point p (real_of_int i / real_of_int n)) * s,
        Im (point p (real_of_int i / real_of_int n)) * s))"
proof -
  define n where "n = num_samples (path_length_mm p s)"
  have n2: "2 \<le> n" by (simp add: n_def num_samples_def)
  have len: "length (polyline_points p s) = nat n + 1"
    using n2 by (simp add: polyline_points_def Let_def n_def[symmetric])
  have nth: "polyline_points p s ! nat i =
       (Re (point p (real_of_int i / real_of_int n)) * s,
        Im (point p (real_of_int i / real_of_int n)) * s)" if "i \<in> {0..n}" for i
  proof -
    from that have "nat i < length [0..n]" and "[0..n] ! nat i = i"
      by simp_all
    then show ?thesis
      by (simp add: polyline_points_def Let_def n_def[symmetric])
  qed
  show ?thesis using len nth by (simp add: Let_def n_def[symmetric])
qed

text \<open>
  The path \<open>ramp\<close> at scale 4 has physical length 1 mm, hence 10 samples and 11 points;
  the point of index 5 is the one at \<open>t = 1/2\<close>, scaled.
\<close>

theorem polyline_points_samples_witness:
  "num_samples (path_length_mm ramp 4) = 10
   \<and> (5::int) \<in> {0..num_samples (path_length_mm ramp 4)}
   \<and> length (polyline_points ramp 4) = 11
   \<and> polyline_points ramp 4 ! 5 = (2, 4)"
proof -
  have n: "num_samples (path_length_mm ramp 4) = 10"
    by (simp add: ramp_def path_length_mm_def num_samples_def py_int_def POINTS_PER_MM_def)
  have mem: "(5::int) \<in> {0..num_samples (path_length_mm ramp 4)}"
    by (simp add: n)
  from polyline_points_samples [of ramp 4]
  have len: "length (polyline_points ramp 4) = 11"
    and all: "\<forall>i\<in>{0..num_samples (path_length_mm ramp 4)}. polyline_points ramp 4 ! nat i =
       (Re (point ramp (real_of_int i / 10)) * 4, Im (point ramp (real_of_int i / 10)) * 4)"
    by (simp_all add: Let_def n)
  from all mem have "polyline_points ramp 4 ! nat 5 =
       (Re (point ramp (real_of_int 5 / 10)) * 4, Im (point ramp (real_of_int 5 / 10)) * 4)"
    by (rule bspec)
  then have "polyline_points ramp 4 ! 5 = (2, 4)"
    by (simp add: ramp_def)
  with n mem len show ?thesis by simp
qed

subsection \<open>Scale factor\<close>

text \<open>
  C3. With \<open>W\<close> the declared width read from the document and \<open>V\<close> the third field of
  its viewbox, the scale factor is \<open>W / V\<close>, with no rounding; for \<open>W = 21.6\<close> and
  \<open>V = 12\<close> it is 1.8. (For \<open>V = 0\<close> the division raises and there is no scale factor.)
\<close>

theorem scale_factor_quotient:
  "svg_width_mm flt f = Inr W \<Longrightarrow> 2 < length (viewbox f) \<Longrightarrow>
   flt (viewbox f ! 2) = Inr V \<Longrightarrow> V \<noteq> 0 \<Longrightarrow>
   scale_factor flt W (viewbox f) = Inr (W / V)
   \<and> (W = 21.6 \<and> V = 12 \<longrightarrow> scale_factor flt W (viewbox f) = Inr 1.8)"
  by (simp add: scale_factor_def)

text \<open>A document of width \<^verbatim>\<open>21.6mm\<close> and viewbox \<^verbatim>\<open>0 0 12 21\<close>.\<close>

theorem scale_factor_quotient_witness:
  "svg_width_mm float_lit doc_mm = Inr 21.6 \<and> 2 < length (viewbox doc_mm)
   \<and> float_lit (viewbox doc_mm ! 2) = Inr 12 \<and> (12::real) \<noteq> 0
   \<and> scale_factor float_lit 21.6 (viewbox doc_mm) = Inr 1.8"
  using scale_factor_quotient [of float_lit doc_mm "21.6" 12]
  by (simp add: doc_mm_def doc_defs lit_defs)

text \<open>
  C7. A document of width \<^verbatim>\<open>21.6mm\<close>, height \<^verbatim>\<open>37.8mm\<close> and viewbox \<^verbatim>\<open>-40 -30 12 21\<close>
  with one path of length 24: the scale factor is 1.8, the physical length 43.2 mm,
  the sample count 432, and 433 points are sampled.
\<close>

theorem end_to_end_scenario:
  "let q = p\<lparr>path_length := 24\<rparr>;
       f = \<lparr>filename = n, paths = [q],
            svg_attributes = [''width'' \<mapsto> ''21.6mm'', ''height'' \<mapsto> ''37.8mm'',
                              ''viewBox'' \<mapsto> ''-40 -30 12 21'']\<rparr>
   in svg_width_mm float_lit f = Inr 21.6
      \<and> svg_height_mm float_lit f = Inr 37.8
      \<and> scale_factor float_lit 21.6 (viewbox f) = Inr 1.8
      \<and> path_length_mm q 1.8 = 43.2
      \<and> num_samples (path_length_mm q 1.8) = 432
      \<and> length (polyline_points q 1.8) = 433"
  by (simp add: Let_def doc_defs lit_defs scale_factor_def path_length_mm_def num_samples_def
        POINTS_PER_MM_def py_int_def polyline_points_def)

subsection \<open>Removing duplicates\<close>

text \<open>
  A point whose distance from the last kept point is exactly 0.01 mm on both axes is
  dropped: \<open>0.01 > 0.01\<close> is false.
\<close>

theorem dedup_boundary_counterexample:
  "\<bar>fst (0.01::real, 0.01::real) - fst (0::real, 0::real)\<bar> = 0.01
   \<and> \<bar>snd (0.01::real, 0.01::real) - snd (0::real, 0::real)\<bar> = 0.01
   \<and> unique_points [(0, 0), (0.01, 0.01)] = [(0, 0)]"
  by (simp add: unique_points_def keeps_def)

text \<open>
  C4, amended. The first point of a sequence is kept. After that, a point is kept, that
  is appended to the chain, exactly when its distance from the last kept point is
  greater than 0.01 mm on one axis at least; otherwise the chain stays as it is. So a
  point at exactly 0.01 mm on both axes is dropped, and so is a point at 0.009 mm on
  both axes. The loop returns the chain it has built.
\<close>

theorem keeps_strict:
  "unique_points [] = []
   \<and> unique_loop u [] = u
   \<and> unique_loop [] (p # ps) = unique_loop [p] ps
   \<and> (u \<noteq> [] \<and> (\<bar>fst p - fst (last u)\<bar> > 0.01 \<or> \<bar>snd p - snd (last u)\<bar> > 0.01)
        \<longrightarrow> keeps u p \<and> unique_loop u (p # ps) = unique_loop (u @ [p]) ps)
   \<and> (u \<noteq> [] \<and> \<bar>fst p - fst (last u)\<bar> \<le> 0.01 \<and> \<bar>snd p - snd (last u)\<bar> \<le> 0.01
        \<longrightarrow> \<not> keeps u p \<and> unique_loop u (p # ps) = unique_loop u ps)
   \<and> (u \<noteq> [] \<and> \<bar>fst p - fst (last u)\<bar> = 0.01 \<and> \<bar>snd p - snd (last u)\<bar> = 0.01
        \<longrightarrow> unique_loop u (p # ps) = unique_loop u ps)
   \<and> (u \<noteq> [] \<and> \<bar>fst p - fst (last u)\<bar> = 0.009 \<and> \<bar>snd p - snd (last u)\<bar> = 0.009
        \<longrightarrow> unique_loop u (p # ps) = unique_loop u ps)
   \<and> unique_points [q, p] =
       (if \<bar>fst p - fst q\<bar> > 0.01 \<or> \<bar>snd p - snd q\<bar> > 0.01 then [q, p] else [q])"
  by (simp add: keeps_def unique_points_def)

text \<open>
  After the origin: a point 0.02 mm away on one axis only is kept; a point at 0.01 mm
  on both axes and a point at 0.009 mm on both axes are dropped.
\<close>

theorem keeps_strict_witness:
  "[(0, 0)] \<noteq> ([] :: xy list)
   \<and> (\<bar>fst (0.02::real, 0::real) - fst (last [(0::real, 0::real)])\<bar> > 0.01
        \<or> \<bar>snd (0.02::real, 0::real) - snd (last [(0::real, 0::real)])\<bar> > 0.01)
   \<and> \<not> \<bar>snd (0.02::real, 0::real) - snd (last [(0::real, 0::real)])\<bar> > 0.01
   \<and> unique_loop [(0, 0)] [(0.02, 0)] = [(0, 0), (0.02, 0)]
   \<and> \<bar>fst (0.01::real, 0.01::real) - fst (last [(0::real, 0::real)])\<bar> = 0.01
   \<and> \<bar>snd (0.01::real, 0.01::real) - snd (last [(0::real, 0::real)])\<bar> = 0.01
   \<and> \<not> keeps [(0, 0)] (0.01, 0.01)
   \<and> unique_loop [(0, 0)] [(0.01, 0.01), (0.02, 0)] = [(0, 0), (0.02, 0)]
   \<and> \<bar>fst (0.009::real, 0.009::real) - fst (last [(0::real, 0::real)])\<bar> = 0.009
   \<and> \<bar>snd (0.009::real, 0.009::real) - snd (last [(0::real, 0::real)])\<bar> = 0.009
   \<and> unique_loop [(0, 0)] [(0.009, 0.009)] = [(0, 0)]
   \<and> unique_points [(0, 0), (0.01, 0.01)] = [(0, 0)]
   \<and> unique_points [(0, 0), (0, 0.02)] = [(0, 0), (0, 0.02)]"
  using keeps_strict [of "[(0, 0)]" "(0.02, 0)" "[]" "(0, 0)"]
    keeps_strict [of "[(0, 0)]" "(0.01, 0.01)" "[(0.02, 0)]" "(0, 0)"]
    keeps_strict [of "[(0, 0)]" "(0.009, 0.009)" "[]" "(0, 0)"]
    keeps_strict [of "[(0, 0)]" "(0, 0.02)" "[]" "(0, 0)"]
  by (simp add: keeps_def unique_points_def)

lemma far_chain_snoc: "far_chain u \<Longrightarrow> keeps u p \<Longrightarrow> far_chain (u @ [p])"
proof (induction u rule: far_chain.induct)
  case 1
  then show ?case by simp
next
  case (2 q)
  then show ?case by simp
next
  case (3 a b ps)
  then show ?case by (simp add: keeps_def)
qed

lemma unique_loop_far: "far_chain u \<Longrightarrow> far_chain (unique_loop u ps)"
  by (induction ps arbitrary: u) (simp_all add: far_chain_snoc)

lemma far_chain_append_keeps: "far_chain (u @ p # ps) \<Longrightarrow> keeps u p"
proof (induction u rule: far_chain.induct)
  case 1
  then show ?case by (simp add: keeps_def)
next
  case (2 q)
  then show ?case by simp
next
  case (3 a b qs)
  then show ?case by (simp add: keeps_def)
qed

lemma unique_loop_fixed: "far_chain (u @ ps) \<Longrightarrow> unique_loop u ps = u @ ps"
proof (induction ps arbitrary: u)
  case Nil
  then show ?case by simp
next
  case (Cons p ps)
  from Cons.prems have k: "keeps u p" by (rule far_chain_append_keeps)
  from Cons.prems have "far_chain ((u @ [p]) @ ps)" by simp
  then have "unique_loop (u @ [p]) ps = (u @ [p]) @ ps" by (rule Cons.IH)
  with k show ?case by simp
qed

text \<open>
  C5. Removing duplicates is idempotent: applied to its own output, it returns that
  output unchanged.
\<close>

theorem unique_points_idem: "unique_points (unique_points ps) = unique_points ps"
proof -
  have "far_chain (unique_points ps)"
    unfolding unique_points_def by (rule unique_loop_far) simp
  then have "far_chain ([] @ unique_points ps)" by simp
  then have "unique_loop [] (unique_points ps) = [] @ unique_points ps"
    by (rule unique_loop_fixed)
  then show ?thesis by (simp add: unique_points_def)
qed

subsection \<open>Emitting\<close>

text \<open>
  C6. A chain of fewer than 2 points is dropped: the document and the console stay as
  they are, and nothing is raised. A chain of exactly 2 points is appended to the
  document as a polyline. Once the scale factor is computed, the loop body is exactly
  this step applied to the deduplicated samples of the path, and it does not raise.
\<close>

theorem chain_threshold:
  "(length u < 2 \<longrightarrow> add_lwpolyline st i L u = st)
   \<and> (length u = 2 \<longrightarrow> msp (add_lwpolyline st i L u) = msp st @ [u])
   \<and> (scale_factor flt w vb = Inr s \<longrightarrow>
        do_path flt w vb st (i, p) =
          Inr (add_lwpolyline st i (path_length_mm p s) (unique_points (polyline_points p s))))"
  by (simp add: add_lwpolyline_def do_path_def)

text \<open>
  A chain of one point, a chain of two, and the path \<open>jump\<close>, whose three samples
  collapse to two points.
\<close>

theorem chain_threshold_witness:
  "length [(0::real, 0::real)] < 2
   \<and> add_lwpolyline \<lparr>msp = [], console = []\<rparr> 0 0 [(0, 0)] = \<lparr>msp = [], console = []\<rparr>
   \<and> length [(0::real, 0::real), (1, 0)] = 2
   \<and> msp (add_lwpolyline \<lparr>msp = [], console = []\<rparr> 0 0 [(0, 0), (1, 0)]) = [[(0, 0), (1, 0)]]
   \<and> scale_factor float_lit 21.6 [''0'', ''0'', ''12'', ''21''] = Inr 1.8
   \<and> do_path float_lit 21.6 [''0'', ''0'', ''12'', ''21''] \<lparr>msp = [], console = []\<rparr> (0, jump)
       = Inr \<lparr>msp = [[(0, 0), (1.8, 0)]], console = [PathLine 0 0 2]\<rparr>"
  using chain_threshold [of "[(0, 0)]" "\<lparr>msp = [], console = []\<rparr>" 0 0 float_lit "21.6"
      "[''0'', ''0'', ''12'', ''21'']" "1.8" jump]
    chain_threshold [of "[(0, 0), (1, 0)]" "\<lparr>msp = [], console = []\<rparr>" 0 0 float_lit "21.6"
      "[''0'', ''0'', ''12'', ''21'']" "1.8" jump]
  by (simp add: jump_def lit_defs path_defs)

subsection \<open>Parse failures\<close>

text \<open>
  Only the third field of the viewbox is read, and only inside the loop over the paths.
  A viewbox whose other three fields are not numbers converts without error; so does
  a viewbox whose third field is not a number when the document has no path.
\<close>

theorem viewbox_fields_counterexample:
  "float_lit ''x'' = Inl ValueError \<and> float_lit ''y'' = Inl ValueError
   \<and> float_lit ''z'' = Inl ValueError
   \<and> convert float_lit doc_fields =
       Inr \<lparr>msp = [[(0, 0), (1.8, 0)]],
            console = [Dimensions ''a.svg'' 21.6 37.8, PathLine 0 0 2, Converted ''a.svg'']\<rparr>
   \<and> float_lit ''wide'' = Inl ValueError
   \<and> convert float_lit doc_empty =
       Inr \<lparr>msp = [], console = [Dimensions ''b.svg'' 21.6 37.8, Converted ''b.svg'']\<rparr>"
  by (simp add: convert_def doc_fields_def doc_empty_def jump_def doc_defs lit_defs path_defs)

lemma scale_factor_third:
  "2 < length vb \<Longrightarrow> 2 < length vb' \<Longrightarrow> vb ! 2 = vb' ! 2 \<Longrightarrow>
   scale_factor flt w vb = scale_factor flt w vb'"
  by (simp add: scale_factor_def)

lemma paths_loop_third:
  assumes "2 < length vb" and "2 < length vb'" and "vb ! 2 = vb' ! 2"
  shows "paths_loop flt w vb st xs = paths_loop flt w vb' st xs"
proof (induction xs arbitrary: st)
  case Nil
  show ?case by simp
next
  case (Cons ip xs)
  have "do_path flt w vb st ip = do_path flt w vb' st ip"
    by (simp add: do_path_def scale_factor_third [OF assms])
  with Cons.IH show ?case by (simp split: sum.splits)
qed

lemma paths_loop_first_error:
  assumes "xs \<noteq> []" and "2 < length vb" and "flt (vb ! 2) = Inl e"
  shows "paths_loop flt w vb st xs = Inl e"
proof -
  from assms(1) obtain ip rest where "xs = ip # rest" by (cases xs) auto
  with assms(2,3) show ?thesis by (simp add: do_path_def scale_factor_def)
qed

text \<open>
  C8, amended. A width or a height that cannot be read as a number (after the removal of
  a final \<^verbatim>\<open>mm\<close>) ends the conversion of the file with the error of the reading; so does
  a third viewbox field that cannot be read, when the document has at least one path.
  The error is not caught, and no document is written. For a document without paths
  the viewbox is not read at all: the conversion succeeds with an empty document,
  whatever the viewbox. The other fields of the viewbox are never read: two viewboxes
  of three fields or more with the same third field give the same scale factor and
  the same conversion.
\<close>

theorem parse_failure_fatal:
  "(svg_width_mm flt f = Inl e \<longrightarrow> convert flt f = Inl e)
   \<and> (svg_width_mm flt f = Inr w \<and> svg_height_mm flt f = Inl e \<longrightarrow> convert flt f = Inl e)
   \<and> (svg_width_mm flt f = Inr w \<and> svg_height_mm flt f = Inr h \<and> paths f \<noteq> []
        \<and> 2 < length (viewbox f) \<and> flt (viewbox f ! 2) = Inl e \<longrightarrow> convert flt f = Inl e)
   \<and> (svg_width_mm flt f = Inr w \<and> svg_height_mm flt f = Inr h \<and> paths f = []
        \<longrightarrow> convert flt f =
              Inr \<lparr>msp = [], console = [Dimensions (filename f) w h, Converted (filename f)]\<rparr>)
   \<and> (2 < length vb \<and> 2 < length vb' \<and> vb ! 2 = vb' ! 2
        \<longrightarrow> scale_factor flt w vb = scale_factor flt w vb')
   \<and> (2 < length (viewbox f)
        \<and> 2 < length (viewbox (f\<lparr>svg_attributes := (svg_attributes f)(''viewBox'' := v)\<rparr>))
        \<and> viewbox (f\<lparr>svg_attributes := (svg_attributes f)(''viewBox'' := v)\<rparr>) ! 2 = viewbox f ! 2
        \<longrightarrow> convert flt (f\<lparr>svg_attributes := (svg_attributes f)(''viewBox'' := v)\<rparr>)
              = convert flt f)"
proof -
  let ?f' = "f\<lparr>svg_attributes := (svg_attributes f)(''viewBox'' := v)\<rparr>"
  have c1: "svg_width_mm flt f = Inl e \<longrightarrow> convert flt f = Inl e"
    by (simp add: convert_def)
  have c2: "svg_width_mm flt f = Inr w \<and> svg_height_mm flt f = Inl e \<longrightarrow> convert flt f = Inl e"
    by (simp add: convert_def)
  have c3: "svg_width_mm flt f = Inr w \<and> svg_height_mm flt f = Inr h \<and> paths f \<noteq> []
        \<and> 2 < length (viewbox f) \<and> flt (viewbox f ! 2) = Inl e \<longrightarrow> convert flt f = Inl e"
  proof (intro impI, elim conjE)
    assume a: "svg_width_mm flt f = Inr w" "svg_height_mm flt f = Inr h" "paths f \<noteq> []"
      "2 < length (viewbox f)" "flt (viewbox f ! 2) = Inl e"
    from a(3) have "enumerate (paths f) \<noteq> []" by (simp add: enumerate_def)
    then have "paths_loop flt w (viewbox f) st (enumerate (paths f)) = Inl e" for st
      using a(4,5) by (rule paths_loop_first_error)
    with a(1,2) show "convert flt f = Inl e" by (simp add: convert_def)
  qed
  have c4: "svg_width_mm flt f = Inr w \<and> svg_height_mm flt f = Inr h \<and> paths f = []
        \<longrightarrow> convert flt f =
              Inr \<lparr>msp = [], console = [Dimensions (filename f) w h, Converted (filename f)]\<rparr>"
    by (simp add: convert_def enumerate_def)
  have c5: "2 < length vb \<and> 2 < length vb' \<and> vb ! 2 = vb' ! 2
        \<longrightarrow> scale_factor flt w vb = scale_factor flt w vb'"
    by (simp add: scale_factor_third)
  have c6: "2 < length (viewbox f) \<and> 2 < length (viewbox ?f') \<and> viewbox ?f' ! 2 = viewbox f ! 2
        \<longrightarrow> convert flt ?f' = convert flt f"
  proof (intro impI, elim conjE)
    assume a: "2 < length (viewbox f)" "2 < length (viewbox ?f')"
      "viewbox ?f' ! 2 = viewbox f ! 2"
    have same: "svg_width_mm flt ?f' = svg_width_mm flt f"
      "svg_height_mm flt ?f' = svg_height_mm flt f" "paths ?f' = paths f"
      "filename ?f' = filename f"
      by (simp_all add: svg_width_mm_def svg_height_mm_def width_def height_def dict_get_def)
    have loop: "paths_loop flt x (viewbox ?f') st xs = paths_loop flt x (viewbox f) st xs"
      for x st xs
      by (rule paths_loop_third [OF a(2) a(1) a(3)])
    show "convert flt ?f' = convert flt f"
      unfolding convert_def same loop ..
  qed
  from c1 c2 c3 c4 c5 c6 show ?thesis by blast
qed

text \<open>
  The width \<^verbatim>\<open>12px\<close>, the height \<^verbatim>\<open>tall\<close> and the viewbox \<^verbatim>\<open>0 0 wide 21\<close>, each alone
  in a document with one path; the same viewbox in a document without paths; and the
  viewbox \<^verbatim>\<open>x y 12 z\<close> replaced by \<^verbatim>\<open>0 0 12 21\<close>.
\<close>

theorem parse_failure_fatal_witness:
  "svg_width_mm float_lit doc_bad = Inl ValueError \<and> convert float_lit doc_bad = Inl ValueError
   \<and> svg_width_mm float_lit doc_bad_height = Inr 21.6
   \<and> svg_height_mm float_lit doc_bad_height = Inl ValueError
   \<and> convert float_lit doc_bad_height = Inl ValueError
   \<and> svg_width_mm float_lit doc_bad_viewbox = Inr 21.6
   \<and> svg_height_mm float_lit doc_bad_viewbox = Inr 37.8
   \<and> paths doc_bad_viewbox \<noteq> []
   \<and> 2 < length (viewbox doc_bad_viewbox)
   \<and> float_lit (viewbox doc_bad_viewbox ! 2) = Inl ValueError
   \<and> convert float_lit doc_bad_viewbox = Inl ValueError
   \<and> svg_width_mm float_lit doc_empty = Inr 21.6
   \<and> svg_height_mm float_lit doc_empty = Inr 37.8
   \<and> paths doc_empty = []
   \<and> viewbox doc_empty = [''0'', ''0'', ''wide'', ''21'']
   \<and> convert float_lit doc_empty =
       Inr \<lparr>msp = [], console = [Dimensions ''b.svg'' 21.6 37.8, Converted ''b.svg'']\<rparr>
   \<and> 2 < length [''x'', ''y'', ''12'', ''z''] \<and> 2 < length [''0'', ''0'', ''12'']
   \<and> [''x'', ''y'', ''12'', ''z''] ! 2 = [''0'', ''0'', ''12''] ! 2
   \<and> scale_factor float_lit 21.6 [''x'', ''y'', ''12'', ''z''] = Inr 1.8
   \<and> 2 < length (viewbox doc_fields)
   \<and> 2 < length (viewbox (doc_fields\<lparr>svg_attributes :=
                     (svg_attributes doc_fields)(''viewBox'' := Some ''0 0 12 21'')\<rparr>))
   \<and> viewbox (doc_fields\<lparr>svg_attributes :=
                     (svg_attributes doc_fields)(''viewBox'' := Some ''0 0 12 21'')\<rparr>) ! 2
       = viewbox doc_fields ! 2
   \<and> convert float_lit (doc_fields\<lparr>svg_attributes :=
                     (svg_attributes doc_fields)(''viewBox'' := Some ''0 0 12 21'')\<rparr>)
       = convert float_lit doc_fields"
  using parse_failure_fatal [of float_lit doc_bad ValueError]
    parse_failure_fatal [of float_lit doc_bad_height ValueError "21.6"]
    parse_failure_fatal [of float_lit doc_bad_viewbox ValueError "21.6" "37.8"
      "[''x'', ''y'', ''12'', ''z'']" "[''0'', ''0'', ''12'']"]
    parse_failure_fatal [of float_lit doc_empty ValueError "21.6" "37.8"]
    parse_failure_fatal [of float_lit doc_fields ValueError "21.6" "37.8" "[]" "[]"
      "Some ''0 0 12 21''"]
  by (simp add: doc_bad_def doc_bad_height_def doc_bad_viewbox_def doc_empty_def
      doc_fields_def doc_defs lit_defs scale_factor_def)

subsection \<open>The declared height\<close>

lemma emitted_simps: "emitted (Inl e) = Inl e" "emitted (Inr st) = Inr (msp st)"
  by (simp_all add: emitted_def)

lemma do_path_msp:
  "msp st = msp st' \<Longrightarrow>
   emitted (do_path flt w vb st ip) = emitted (do_path flt w vb st' ip)"
  by (simp add: do_path_def add_lwpolyline_def emitted_simps split: sum.splits)

lemma paths_loop_msp:
  "msp st = msp st' \<Longrightarrow>
   emitted (paths_loop flt w vb st xs) = emitted (paths_loop flt w vb st' xs)"
proof (induction xs arbitrary: st st')
  case Nil
  then show ?case by (simp add: emitted_simps)
next
  case (Cons ip xs)
  from Cons.prems
  have eq: "emitted (do_path flt w vb st ip) = emitted (do_path flt w vb st' ip)"
    by (rule do_path_msp)
  show ?case
  proof (cases "do_path flt w vb st ip")
    case (Inl e)
    with eq have "do_path flt w vb st' ip = Inl e"
      by (cases "do_path flt w vb st' ip") (simp_all add: emitted_simps)
    with Inl show ?thesis by simp
  next
    case (Inr s1)
    with eq obtain s2 where s2: "do_path flt w vb st' ip = Inr s2" and m: "msp s1 = msp s2"
      by (cases "do_path flt w vb st' ip") (simp_all add: emitted_simps)
    from m have "emitted (paths_loop flt w vb s1 xs) = emitted (paths_loop flt w vb s2 xs)"
      by (rule Cons.IH)
    with Inr s2 show ?thesis by simp
  qed
qed

lemma convert_msp:
  assumes "svg_width_mm flt f = Inr w" and "svg_height_mm flt f = Inr h"
  shows "emitted (convert flt f) =
     emitted (paths_loop flt w (viewbox f) \<lparr>msp = [], console = []\<rparr> (enumerate (paths f)))"
proof -
  let ?r = "paths_loop flt w (viewbox f)
              \<lparr>msp = [], console = [Dimensions (filename f) w h]\<rparr> (enumerate (paths f))"
  have "emitted (convert flt f) = emitted ?r"
    using assms by (cases ?r) (simp_all add: convert_def emitted_simps)
  also have "\<dots> = emitted (paths_loop flt w (viewbox f) \<lparr>msp = [], console = []\<rparr>
                       (enumerate (paths f)))"
    by (rule paths_loop_msp) simp
  finally show ?thesis .
qed

text \<open>
  C10. Two documents that differ in their height attribute only, both heights being
  readable, have the same declared width, the same viewbox and the same paths, hence
  the same scale factor, samples and chains (\<open>scale_factor\<close>, \<open>polyline_points\<close> and
  \<open>unique_points\<close> take nothing else), and they emit the same polylines, or end with
  the same error. The height reaches the console only.
\<close>

theorem height_no_influence:
  assumes "f' = f\<lparr>svg_attributes := (svg_attributes f)(''height'' := v)\<rparr>"
    and "svg_height_mm flt f = Inr h" and "svg_height_mm flt f' = Inr h'"
  shows "svg_width_mm flt f' = svg_width_mm flt f \<and> viewbox f' = viewbox f
         \<and> paths f' = paths f
         \<and> emitted (convert flt f') = emitted (convert flt f)"
proof -
  have w: "svg_width_mm flt f' = svg_width_mm flt f"
    by (simp add: assms(1) svg_width_mm_def width_def dict_get_def)
  have vb: "viewbox f' = viewbox f"
    by (simp add: assms(1) viewbox_def dict_get_def)
  have ps: "paths f' = paths f" by (simp add: assms(1))
  have "emitted (convert flt f') = emitted (convert flt f)"
  proof (cases "svg_width_mm flt f")
    case (Inl e)
    with w show ?thesis by (simp add: convert_def)
  next
    case (Inr x)
    with w have "svg_width_mm flt f' = Inr x" by simp
    from convert_msp [OF this assms(3)] convert_msp [OF Inr assms(2)]
    show ?thesis by (simp add: vb ps)
  qed
  with w vb ps show ?thesis by simp
qed

text \<open>The heights \<^verbatim>\<open>5\<close> and \<^verbatim>\<open>40mm\<close> on a document with the path \<open>jump\<close>.\<close>

theorem height_no_influence_witness:
  "doc_tall = doc_short\<lparr>svg_attributes := (svg_attributes doc_short)(''height'' := Some ''40mm'')\<rparr>
   \<and> svg_height_mm float_lit doc_short = Inr 5
   \<and> svg_height_mm float_lit doc_tall = Inr 40
   \<and> emitted (convert float_lit doc_tall) = Inr [[(0, 0), (1.8, 0)]]
   \<and> emitted (convert float_lit doc_short) = Inr [[(0, 0), (1.8, 0)]]"
  using height_no_influence [of doc_tall doc_short "Some ''40mm''" float_lit 5 40]
  by (simp add: convert_def doc_tall_def doc_short_def jump_def doc_defs lit_defs path_defs
      emitted_simps)

end
